theory Spec2Isabelle
  imports Main "HOL-Library.Char_ord" "HOL-Library.List_Lexorder"
begin

section \<open>JavaScript primitives used by the sources\<close>

text \<open>
  Strings are lists of characters (bytes: a character outside ASCII is several of
  them, none in any class below), \<^verbatim>\<open>null\<close> and \<^verbatim>\<open>undefined\<close> are \<open>None\<close>.
  \<^verbatim>\<open>Array.prototype.indexOf\<close> compares with strict equality and answers the first
  index, or \<open>-1\<close>.
\<close>

fun indexOf :: "'a list \<Rightarrow> 'a \<Rightarrow> int" where
  "indexOf [] x = -1"
| "indexOf (y # ys) x =
     (if y = x then 0
      else (let i = indexOf ys x in if i = -1 then -1 else i + 1))"

text \<open>\<^verbatim>\<open>s[i]\<close> on a string: the character at index \<open>i\<close>, \<^verbatim>\<open>undefined\<close> out of range.\<close>

definition charAt :: "string \<Rightarrow> int \<Rightarrow> char option" where
  "charAt s i = (if 0 \<le> i \<and> i < int (length s) then Some (s ! nat i) else None)"

text \<open>
  \<^verbatim>\<open>s.split(sep)\<close> with a one-character separator: the pieces between the
  separators, so that the empty string gives one empty piece.
\<close>

fun split :: "string \<Rightarrow> char \<Rightarrow> string list" where
  "split [] sep = [[]]"
| "split (c # cs) sep =
     (if c = sep then [] # split cs sep
      else (case split cs sep of
              [] \<Rightarrow> [[c]]
            | p # ps \<Rightarrow> (c # p) # ps))"

text \<open>
  \<^verbatim>\<open>s.match("[...]*")[0]\<close>: the pattern has no anchor and no global flag, so the
  result is the leftmost match. A starred character class matches at index 0
  already (the empty string if need be) and is greedy: the match is the longest
  prefix of \<open>s\<close> made of characters of the class.
\<close>

definition match_class_star :: "(char \<Rightarrow> bool) \<Rightarrow> string \<Rightarrow> string" where
  "match_class_star cls s = takeWhile cls s"

definition in_range :: "char \<Rightarrow> char \<Rightarrow> char \<Rightarrow> bool" where
  "in_range lo hi c = ((of_char lo :: nat) \<le> of_char c \<and> (of_char c :: nat) \<le> of_char hi)"

text \<open>The class \<^verbatim>\<open>[A-Za-z0-9_\.]\<close> of \<^verbatim>\<open>createGetPackage\<close>.\<close>

definition package_class :: "char \<Rightarrow> bool" where
  "package_class c =
     (in_range CHR ''A'' CHR ''Z'' c \<or> in_range CHR ''a'' CHR ''z'' c \<or>
      in_range CHR ''0'' CHR ''9'' c \<or> c = CHR ''_'' \<or> c = CHR ''.'')"

text \<open>The class \<^verbatim>\<open>[0-9\.]\<close> of \<^verbatim>\<open>updateGetVersion\<close>.\<close>

definition version_class :: "char \<Rightarrow> bool" where
  "version_class c = (in_range CHR ''0'' CHR ''9'' c \<or> c = CHR ''.'')"

section \<open>CommandParser.js\<close>

text \<open>
  The parser object holds the argument vector. Its methods write to the console
  (\<^verbatim>\<open>Console.error\<close>) and return a string or \<^verbatim>\<open>null\<close>: each method is a function to
  the lines written and the value returned.
\<close>

record CommandParser =
  argv :: "string list"

type_synonym 'a console = "string list \<times> 'a"

definition package_errormsg :: string where
  "package_errormsg =
     ''Invalid package name, see http://developer.android.com/guide/topics/manifest/manifest-element.html#package''"

definition version_errormsg :: string where
  "version_errormsg = ''Version must be of format ab.cd.ef.gh''"

definition peekCommand :: "CommandParser \<Rightarrow> string option" where
  "peekCommand this =
     (if length (argv this) < 3 then None
      else (let command = argv this ! 2 in
        if indexOf [''version'', ''-v'', ''-version'', ''--version''] command > -1
          then Some ''version''
        else if indexOf [''help'', ''-h'', ''-help'', ''--help''] command > -1
          then Some ''help''
        else if indexOf [''create'', ''update'', ''refresh'', ''build''] command > -1
          then Some command
        else None))"

definition createGetPackage :: "CommandParser \<Rightarrow> string option console" where
  "createGetPackage this =
     (if length (argv this) < 4 then ([], None)
      else (let pkg = argv this ! 3 in
        if match_class_star package_class pkg \<noteq> pkg
          then ([package_errormsg], None)
        else if charAt pkg 0 = Some CHR ''.'' \<or>
                charAt pkg (int (length pkg) - 1) = Some CHR ''.''
          then ([package_errormsg, ''Name must not start or end with '' @ [CHR 0x27, CHR ''.'', CHR 0x27]], None)
        else if length (split pkg CHR ''.'') < 3
          then ([package_errormsg, ''Name needs to consist of 3+ elements''], None)
        else ([], Some pkg)))"

definition updateGetVersion :: "CommandParser \<Rightarrow> string option console" where
  "updateGetVersion this =
     (if length (argv this) < 4 then ([], None)
      else (let version = argv this ! 3 in
        if match_class_star version_class version \<noteq> version
          then ([version_errormsg], None)
        else if length (split version CHR ''.'') \<noteq> 4
          then ([version_errormsg], None)
        else ([], Some version)))"

definition buildGetType :: "CommandParser \<Rightarrow> string option" where
  "buildGetType this =
     (if length (argv this) < 3 then None
      else if length (argv this) < 4 then Some ''debug''
      else (let type = argv this ! 3 in
        if indexOf [''debug'', ''release''] type > -1 then Some type
        else None))"

definition getCommand :: "CommandParser \<Rightarrow> string option console" where
  "getCommand this =
     (let cmd = peekCommand this in
      if cmd = Some ''create'' then
        (let (out, pkg) = createGetPackage this
         in (out, if pkg \<noteq> None then cmd else None))
      else if cmd = Some ''update'' then
        (let (out, version) = updateGetVersion this
         in (out, if version \<noteq> None then cmd else None))
      else if cmd = Some ''build'' then
        (let type = buildGetType this
         in ([], if type \<noteq> None then cmd else None))
      else if cmd = Some ''help'' \<or> cmd = Some ''version'' then ([], cmd)
      else ([], None))"

section \<open>AndroidProjectDeps.js\<close>

subsection \<open>Values, errors and the collaborators\<close>

text \<open>
  A JavaScript value used as a condition: \<^verbatim>\<open>null\<close>, \<^verbatim>\<open>undefined\<close> and the empty
  string are falsy, every other string is truthy.
\<close>

definition truthy :: "string option \<Rightarrow> bool" where
  "truthy v = (case v of None \<Rightarrow> False | Some s \<Rightarrow> s \<noteq> [])"

datatype error =
    InvalidChannelError string
  | MkTemp_Error string
  | FS_Error string

text \<open>
  What the module does to the outside, in the order it does it: the calls into
  the console, the progress indicator, the transfer client, the file system and
  the caller's completion callbacks. The console, the indicator, \<^verbatim>\<open>ShellJS\<close> and the
  caller's callbacks are taken to return normally; \<^verbatim>\<open>MkTemp.createFileSync\<close> and
  \<^verbatim>\<open>FS.readFileSync\<close> may throw, and nothing in the module catches an exception.
\<close>

datatype 'p event =
    MkTemp_call string
  | Console_createFiniteProgress string
  | Console_error string
  | New_Downloader string string
  | Indicator_update 'p
  | Indicator_done string
  | FS_readFileSync_call string
  | FetchVersions_callback "string list option" "string option"
  | Download_callback "string option" "string option"
  | ShellJS_rm_call "string option"
  | ShellJS_ls_call string

text \<open>
  The state threaded through the module: the files this run has created and not
  yet removed, and the trace of events.
\<close>

record 'p state =
  files :: "string set"
  trace :: "'p event list"

text \<open>
  The collaborators that are not part of the module, as parameters:
  \<^item> \<open>createFileSync\<close>: \<^verbatim>\<open>MkTemp.createFileSync\<close>, which throws, or returns the name
    of the file it created (or a falsy value);
  \<^item> \<open>downloader_get\<close>: one transfer of the transfer client for a URL and a
    destination path: the fractions it reports and its terminal error message
    (absent on success);
  \<^item> \<open>readFileSync\<close>: \<^verbatim>\<open>FS.readFileSync\<close>, which throws or returns the text;
  \<^item> \<open>indexParser_parse\<close>: the listing parser;
  \<^item> \<open>path_join\<close>: \<^verbatim>\<open>Path.join\<close>;
  \<^item> \<open>shell_ls\<close>, \<open>shell_pwd\<close>: \<^verbatim>\<open>ShellJS.ls\<close> for a glob pattern, \<^verbatim>\<open>ShellJS.pwd\<close>.
\<close>

record 'p world =
  createFileSync :: "string \<Rightarrow> error + string option"
  downloader_get :: "string \<Rightarrow> string \<Rightarrow> 'p list \<times> string option"
  readFileSync :: "string \<Rightarrow> error + string"
  indexParser_parse :: "string \<Rightarrow> string list"
  path_join :: "string \<Rightarrow> string \<Rightarrow> string"
  shell_ls :: "string \<Rightarrow> string list"
  shell_pwd :: string

definition emit :: "'p event \<Rightarrow> 'p state \<Rightarrow> 'p state" where
  "emit e s = s\<lparr>trace := trace s @ [e]\<rparr>"

definition MkTemp_createFileSync ::
  "'p world \<Rightarrow> string \<Rightarrow> 'p state \<Rightarrow> (error + string option) \<times> 'p state" where
  "MkTemp_createFileSync w template s =
     (let s1 = emit (MkTemp_call template) s in
      case createFileSync w template of
        Inl e \<Rightarrow> (Inl e, s1)
      | Inr None \<Rightarrow> (Inr None, s1)
      | Inr (Some f) \<Rightarrow> (Inr (Some f), s1\<lparr>files := insert f (files s1)\<rparr>))"

definition ShellJS_rm :: "string option \<Rightarrow> 'p state \<Rightarrow> 'p state" where
  "ShellJS_rm target s =
     (let s1 = emit (ShellJS_rm_call target) s in
      case target of
        None \<Rightarrow> s1
      | Some f \<Rightarrow> s1\<lparr>files := files s1 - {f}\<rparr>)"

text \<open>
  Modelled from the spec: the transfer client (\<^verbatim>\<open>Downloader\<close>, not among the
  sources) invokes the progress callback zero or more times and then the terminal
  callback exactly once, with no error or with an error message. Both callers
  install the same progress handler, \<^verbatim>\<open>indicator.update(progress)\<close>.
\<close>

definition Downloader_get ::
  "'p world \<Rightarrow> string \<Rightarrow> string \<Rightarrow>
   (string option \<Rightarrow> 'p state \<Rightarrow> (error + unit) \<times> 'p state) \<Rightarrow>
   'p state \<Rightarrow> (error + unit) \<times> 'p state" where
  "Downloader_get w url path callback s =
     (let (progress, errormsg) = downloader_get w url path;
          s1 = fold (\<lambda>p. emit (Indicator_update p)) progress s
      in callback errormsg s1)"

subsection \<open>The module\<close>

definition BASE_URL :: string where
  "BASE_URL = ''https://download.01.org/crosswalk/releases/crosswalk/android/''"

definition CHANNELS :: "string list" where
  "CHANNELS = [''beta'', ''canary'', ''stable'']"

record AndroidProjectDeps =
  channel :: string

definition new_AndroidProjectDeps :: "string \<Rightarrow> error + AndroidProjectDeps" where
  "new_AndroidProjectDeps ch =
     (if indexOf CHANNELS ch = -1
      then Inl (InvalidChannelError (''Unknown channel '' @ ch))
      else Inr \<lparr>channel = ch\<rparr>)"

text \<open>The function passed to \<^verbatim>\<open>downloader.get\<close> by \<^verbatim>\<open>fetchVersions\<close>.\<close>

definition fetchVersions_get_callback ::
  "'p world \<Rightarrow> string \<Rightarrow> string option \<Rightarrow> 'p state \<Rightarrow> (error + unit) \<times> 'p state" where
  "fetchVersions_get_callback w indexFile errormsg s =
     (let s1 = emit (Indicator_done []) s in
      if truthy errormsg then
        (let s2 = emit (FetchVersions_callback None errormsg) s1
         in (Inr (), ShellJS_rm (Some indexFile) s2))
      else
        (let s2 = emit (FS_readFileSync_call indexFile) s1 in
         case readFileSync w indexFile of
           Inl e \<Rightarrow> (Inl e, s2)
         | Inr buffer \<Rightarrow>
             (let versions = indexParser_parse w buffer;
                  s3 = emit (FetchVersions_callback (Some versions) None) s2
              in (Inr (), ShellJS_rm (Some indexFile) s3))))"

text \<open>The branch of \<^verbatim>\<open>fetchVersions\<close> taken when \<^verbatim>\<open>indexFile\<close> is falsy.\<close>

definition fetchVersions_no_indexFile ::
  "string option \<Rightarrow> 'p state \<Rightarrow> (error + unit) \<times> 'p state" where
  "fetchVersions_no_indexFile indexFile s =
     (let s1 = emit (FetchVersions_callback None (Some ''Failed to download package index.'')) s
      in (Inr (), ShellJS_rm indexFile s1))"

text \<open>
  \<^verbatim>\<open>if (indexFile)\<close> holds for a non-empty string; \<^verbatim>\<open>null\<close>, \<^verbatim>\<open>undefined\<close> and the
  empty string take the other branch.
\<close>

definition fetchVersions ::
  "'p world \<Rightarrow> AndroidProjectDeps \<Rightarrow> 'p state \<Rightarrow> (error + unit) \<times> 'p state" where
  "fetchVersions w this s =
     (let url = BASE_URL @ channel this @ ''/'' in
      case MkTemp_createFileSync w ''index.html.XXXXXX'' s of
        (Inl e, s1) \<Rightarrow> (Inl e, s1)
      | (Inr None, s1) \<Rightarrow> fetchVersions_no_indexFile None s1
      | (Inr (Some indexFile), s1) \<Rightarrow>
          if indexFile \<noteq> [] then
            (let s2 = emit (Console_createFiniteProgress ''Fetching version index '') s1;
                 s3 = emit (New_Downloader url indexFile) s2
             in Downloader_get w url indexFile (fetchVersions_get_callback w indexFile) s3)
          else fetchVersions_no_indexFile (Some indexFile) s1)"

datatype find_result = ZipFile string | NotFound

definition find_zip :: "'p world \<Rightarrow> 'p state \<Rightarrow> find_result \<times> 'p state" where
  "find_zip w s =
     (let zips = shell_ls w ''crosswalk-*.*.*.*.zip'';
          s1 = emit (ShellJS_ls_call ''crosswalk-*.*.*.*.zip'') s
      in if length zips = 0 then
           (let zips' = shell_ls w ''../crosswalk-*.*.*.*.zip'';
                s2 = emit (ShellJS_ls_call ''../crosswalk-*.*.*.*.zip'') s1
            in if length zips' = 0 then
                 (NotFound,
                  emit (Console_error
                    (''Crosswalk Zip not found in current or parent directory '' @ shell_pwd w)) s2)
               else (ZipFile (zips' ! (length zips' - 1)), s2))
         else (ZipFile (zips ! (length zips - 1)), s1))"

text \<open>The function passed to \<^verbatim>\<open>downloader.get\<close> by \<^verbatim>\<open>download\<close>.\<close>

definition download_get_callback ::
  "string \<Rightarrow> string option \<Rightarrow> 'p state \<Rightarrow> (error + unit) \<times> 'p state" where
  "download_get_callback filename errormsg s =
     (let s1 = emit (Indicator_done []) s in
      if truthy errormsg
      then (Inr (), emit (Download_callback None errormsg) s1)
      else (Inr (), emit (Download_callback (Some filename) None) s1))"

definition download ::
  "'p world \<Rightarrow> AndroidProjectDeps \<Rightarrow> string \<Rightarrow> string \<Rightarrow> 'p state \<Rightarrow>
   (error + unit) \<times> 'p state" where
  "download w this version dir s =
     (let filename = ''crosswalk-'' @ version @ ''.zip'';
          url = BASE_URL @ channel this @ ''/'' @ version @ ''/'' @ filename;
          s1 = emit (Console_createFiniteProgress (''Downloading '' @ version @ '' '')) s;
          path = path_join w dir filename;
          s2 = emit (New_Downloader url path) s1
      in Downloader_get w url path (download_get_callback filename) s2)"

section \<open>Notions of the specification\<close>

subsection \<open>Argument shapes\<close>

definition starts_with :: "char \<Rightarrow> string \<Rightarrow> bool" where
  "starts_with c s = (case s of [] \<Rightarrow> False | x # _ \<Rightarrow> x = c)"

definition ends_with :: "char \<Rightarrow> string \<Rightarrow> bool" where
  "ends_with c s = starts_with c (rev s)"

text \<open>The inverse of \<open>split\<close>: the pieces with the separator between them.\<close>

definition join :: "char \<Rightarrow> string list \<Rightarrow> string" where
  "join sep ps = (case ps of [] \<Rightarrow> [] | p # qs \<Rightarrow> p @ concat (map (\<lambda>q. sep # q) qs))"

text \<open>
  A version as the specification words it: exactly four segments between dots,
  each a non-empty string of digits.
\<close>

definition numeric_segment :: "string \<Rightarrow> bool" where
  "numeric_segment p = (p \<noteq> [] \<and> list_all (in_range CHR ''0'' CHR ''9'') p)"

definition four_numeric_segments :: "string \<Rightarrow> bool" where
  "four_numeric_segments v =
     (length (split v CHR ''.'') = 4 \<and> list_all numeric_segment (split v CHR ''.''))"

subsection \<open>Network and file-system boundary\<close>

definition base_url :: string where
  "base_url = ''https://download.01.org/crosswalk/releases/crosswalk/android''"

definition archive_name :: string where
  "archive_name = ''crosswalk''"

definition listing_url :: "string \<Rightarrow> string" where
  "listing_url ch = base_url @ ''/'' @ ch @ ''/''"

definition archive_file :: "string \<Rightarrow> string" where
  "archive_file v = archive_name @ ''-'' @ v @ ''.zip''"

definition archive_url :: "string \<Rightarrow> string \<Rightarrow> string" where
  "archive_url ch v = base_url @ ''/'' @ ch @ ''/'' @ v @ ''/'' @ archive_file v"

definition current_pattern :: string where
  "current_pattern = ''crosswalk-*.*.*.*.zip''"

definition parent_pattern :: string where
  "parent_pattern = ''../crosswalk-*.*.*.*.zip''"

subsection \<open>Observations on a trace\<close>

text \<open>The final messages of the calls of \<^verbatim>\<open>indicator.done\<close>.\<close>

fun dones :: "'p event list \<Rightarrow> string list" where
  "dones [] = []"
| "dones (Indicator_done m # es) = m # dones es"
| "dones (e # es) = dones es"

subsection \<open>Example environments\<close>

text \<open>No network: every transfer ends with an error message.\<close>

definition offline_world :: "nat world" where
  "offline_world =
     \<lparr>createFileSync = (\<lambda>t. Inr (Some ''index.html.k3x9Qa'')),
      downloader_get = (\<lambda>url path. ([0], Some ''getaddrinfo ENOTFOUND download.01.org'')),
      readFileSync = (\<lambda>f. Inl (FS_Error ''ENOENT'')),
      indexParser_parse = (\<lambda>b. []),
      path_join = (\<lambda>d f. d @ ''/'' @ f),
      shell_ls = (\<lambda>p. []),
      shell_pwd = ''/home/user/app''\<rparr>"

text \<open>The transfer succeeds, reading the downloaded listing back throws.\<close>

definition unreadable_world :: "nat world" where
  "unreadable_world =
     \<lparr>createFileSync = (\<lambda>t. Inr (Some ''index.html.k3x9Qa'')),
      downloader_get = (\<lambda>url path. ([50, 100], None)),
      readFileSync = (\<lambda>f. Inl (FS_Error ''EACCES'')),
      indexParser_parse = (\<lambda>b. []),
      path_join = (\<lambda>d f. d @ ''/'' @ f),
      shell_ls = (\<lambda>p. []),
      shell_pwd = ''/home/user/app''\<rparr>"

text \<open>Everything works; two archives in the current directory, one in the parent.\<close>

definition online_world :: "nat world" where
  "online_world =
     \<lparr>createFileSync = (\<lambda>t. Inr (Some ''index.html.k3x9Qa'')),
      downloader_get = (\<lambda>url path. ([50, 100], None)),
      readFileSync = (\<lambda>f. Inr ''<a href=14.43.343.25/>''),
      indexParser_parse = (\<lambda>b. [''14.43.343.25'']),
      path_join = (\<lambda>d f. d @ ''/'' @ f),
      shell_ls = (\<lambda>p. if p = ''crosswalk-*.*.*.*.zip''
                        then [''crosswalk-10.39.235.15.zip'', ''crosswalk-9.38.208.10.zip'']
                        else [''../crosswalk-8.37.189.14.zip'']),
      shell_pwd = ''/home/user/app''\<rparr>"

text \<open>
  As \<open>online_world\<close>, but the current directory is listed oldest version first,
  which is not the order of the names as strings.
\<close>

definition unsorted_world :: "nat world" where
  "unsorted_world =
     \<lparr>createFileSync = (\<lambda>t. Inr (Some ''index.html.k3x9Qa'')),
      downloader_get = (\<lambda>url path. ([50, 100], None)),
      readFileSync = (\<lambda>f. Inr ''<a href=14.43.343.25/>''),
      indexParser_parse = (\<lambda>b. [''14.43.343.25'']),
      path_join = (\<lambda>d f. d @ ''/'' @ f),
      shell_ls = (\<lambda>p. if p = ''crosswalk-*.*.*.*.zip''
                        then [''crosswalk-9.38.208.10.zip'', ''crosswalk-10.39.235.15.zip'']
                        else []),
      shell_pwd = ''/home/user/app''\<rparr>"

definition fresh_state :: "nat state" where
  "fresh_state = \<lparr>files = {}, trace = []\<rparr>"

section \<open>Properties of the JavaScript primitives\<close>

lemma indexOf_ge: "- 1 \<le> indexOf xs x"
  by (induction xs) (auto simp: Let_def)

lemma indexOf_mem: "(- 1 < indexOf xs x) = (x \<in> set xs)"
proof (induction xs)
  case Nil
  show ?case by simp
next
  case (Cons y ys)
  have "- 1 \<le> indexOf ys x" by (rule indexOf_ge)
  with Cons show ?case by (auto simp: Let_def)
qed

lemma indexOf_not_mem: "(indexOf xs x = - 1) = (x \<notin> set xs)"
  using indexOf_mem [of xs x] indexOf_ge [of xs x] by auto

lemma match_class_star_eq: "(match_class_star cls s = s) = list_all cls s"
  by (simp add: match_class_star_def list_all_iff)

lemma split_not_Nil: "split s sep \<noteq> []"
  by (induction s) (auto split: list.splits)

text \<open>One segment more than there are separators.\<close>

lemma length_split: "length (split s sep) = Suc (length (filter (\<lambda>c. c = sep) s))"
  using split_not_Nil by (induction s) (auto split: list.splits)

lemma join_split: "join sep (split s sep) = s"
  using split_not_Nil by (induction s) (auto simp: join_def split: list.splits)

lemma split_no_sep: "p \<in> set (split s sep) \<Longrightarrow> sep \<notin> set p"
  by (induction s arbitrary: p) (auto split: list.splits if_splits)

lemma set_join: "set (join sep ps) \<subseteq> insert sep (\<Union> (set ` set ps))"
  by (auto simp: join_def split: list.splits)

lemma charAt_first: "(charAt s 0 = Some c) = starts_with c s"
  by (cases s) (auto simp: charAt_def starts_with_def)

lemma charAt_last: "(charAt s (int (length s) - 1) = Some c) = ends_with c s"
proof (cases s rule: rev_cases)
  case Nil
  then show ?thesis by (simp add: charAt_def ends_with_def starts_with_def)
next
  case (snoc ys y)
  then show ?thesis
    by (simp add: charAt_def ends_with_def starts_with_def nth_append)
qed

section \<open>Properties of the command parser\<close>

lemma peekCommand_create:
  "2 < length (argv this) \<Longrightarrow> argv this ! 2 = ''create'' \<Longrightarrow> peekCommand this = Some ''create''"
  by (simp add: peekCommand_def)

lemma peekCommand_update:
  "2 < length (argv this) \<Longrightarrow> argv this ! 2 = ''update'' \<Longrightarrow> peekCommand this = Some ''update''"
  by (simp add: peekCommand_def)

lemma peekCommand_build:
  "2 < length (argv this) \<Longrightarrow> argv this ! 2 = ''build'' \<Longrightarrow> peekCommand this = Some ''build''"
  by (simp add: peekCommand_def)

lemma peekCommand_refresh:
  "2 < length (argv this) \<Longrightarrow> argv this ! 2 = ''refresh'' \<Longrightarrow> peekCommand this = Some ''refresh''"
  by (simp add: peekCommand_def)

lemma createGetPackage_result:
  "snd (createGetPackage this) =
     (if 3 < length (argv this) \<and> list_all package_class (argv this ! 3) \<and>
         \<not> starts_with CHR ''.'' (argv this ! 3) \<and> \<not> ends_with CHR ''.'' (argv this ! 3) \<and>
         3 \<le> length (split (argv this ! 3) CHR ''.'')
      then Some (argv this ! 3) else None)"
  by (auto simp: createGetPackage_def Let_def match_class_star_eq charAt_first charAt_last)

lemma updateGetVersion_result:
  "snd (updateGetVersion this) =
     (if 3 < length (argv this) \<and> list_all version_class (argv this ! 3) \<and>
         length (split (argv this ! 3) CHR ''.'') = 4
      then Some (argv this ! 3) else None)"
  by (auto simp: updateGetVersion_def Let_def match_class_star_eq)

lemma getCommand_of_update:
  assumes "peekCommand this = Some ''update''"
  shows "snd (getCommand this) =
     (if snd (updateGetVersion this) \<noteq> None then Some ''update'' else None)"
  using assms by (simp add: getCommand_def split_beta)

text \<open>
  Every version of the shape the specification describes passes the two checks
  of \<^verbatim>\<open>updateGetVersion\<close>.
\<close>

lemma four_numeric_segments_accepted:
  assumes "four_numeric_segments v"
  shows "list_all version_class v \<and> length (split v CHR ''.'') = 4"
proof -
  have segs: "\<forall>p \<in> set (split v CHR ''.''). \<forall>c \<in> set p. in_range CHR ''0'' CHR ''9'' c"
    using assms by (auto simp: four_numeric_segments_def numeric_segment_def list_all_iff)
  have "set v \<subseteq> insert CHR ''.'' (\<Union> (set ` set (split v CHR ''.'')))"
    using set_join [of "CHR ''.''" "split v CHR ''.''"] by (simp add: join_split)
  with segs have "\<forall>c \<in> set v. version_class c"
    by (auto simp: version_class_def)
  then show ?thesis
    using assms by (simp add: four_numeric_segments_def list_all_iff)
qed

lemma update_well_formed_version:
  assumes "3 < length (argv this)" and "argv this ! 2 = ''update''"
    and "four_numeric_segments (argv this ! 3)"
  shows "snd (getCommand this) = Some ''update''"
proof -
  have "peekCommand this = Some ''update''"
    using assms(1,2) by (simp add: peekCommand_update)
  then show ?thesis
    using assms(1) four_numeric_segments_accepted [OF assms(3)]
    by (simp add: getCommand_of_update updateGetVersion_result)
qed

text \<open>
  Claim C7: for every argument vector whose command token is "create", getCommand
  returns "create" if and only if the package-id argument is present, consists
  only of characters of [A-Za-z0-9_.], does not start or end with '.', and splits
  on '.' into 3 or more segments; otherwise getCommand returns null.
\<close>

theorem getCommand_create:
  assumes "2 < length (argv this)" and "argv this ! 2 = ''create''"
  shows "snd (getCommand this) =
     (if 3 < length (argv this) \<and> list_all package_class (argv this ! 3) \<and>
         \<not> starts_with CHR ''.'' (argv this ! 3) \<and> \<not> ends_with CHR ''.'' (argv this ! 3) \<and>
         3 \<le> length (split (argv this ! 3) CHR ''.'')
      then Some ''create'' else None)"
proof -
  have "peekCommand this = Some ''create''"
    using assms by (rule peekCommand_create)
  then have "snd (getCommand this) =
      (if snd (createGetPackage this) \<noteq> None then Some ''create'' else None)"
    by (simp add: getCommand_def split_beta)
  then show ?thesis
    by (simp add: createGetPackage_result)
qed

theorem getCommand_create_witness:
  "snd (getCommand \<lparr>argv = [''node'', ''crosswalk-app'', ''create'', ''com.example.app'']\<rparr>)
     = Some ''create'' \<and>
   snd (getCommand \<lparr>argv = [''node'', ''crosswalk-app'', ''create'', ''com.example'']\<rparr>)
     = None \<and>
   snd (getCommand \<lparr>argv = [''node'', ''crosswalk-app'', ''create'', ''com.example.app.'']\<rparr>)
     = None \<and>
   snd (getCommand \<lparr>argv = [''node'', ''crosswalk-app'', ''create'', ''com.my-example.app'']\<rparr>)
     = None \<and>
   snd (getCommand \<lparr>argv = [''node'', ''crosswalk-app'', ''create'']\<rparr>) = None"
  using
    getCommand_create [of "\<lparr>argv = [''node'', ''crosswalk-app'', ''create'', ''com.example.app'']\<rparr>"]
    getCommand_create [of "\<lparr>argv = [''node'', ''crosswalk-app'', ''create'', ''com.example'']\<rparr>"]
    getCommand_create [of "\<lparr>argv = [''node'', ''crosswalk-app'', ''create'', ''com.example.app.'']\<rparr>"]
    getCommand_create [of "\<lparr>argv = [''node'', ''crosswalk-app'', ''create'', ''com.my-example.app'']\<rparr>"]
    getCommand_create [of "\<lparr>argv = [''node'', ''crosswalk-app'', ''create'']\<rparr>"]
  by (simp add: package_class_def in_range_def starts_with_def ends_with_def)

text \<open>
  Claim C3: for every argument vector whose command token is "update",
  getCommand returns "update" if and only if the following argument consists of
  exactly 4 dot-separated numeric segments, each a non-empty string of digits;
  for every other value of that argument getCommand returns null. The parser
  does not do that: \<^verbatim>\<open>updateGetVersion\<close> tests the characters and counts the
  pieces, and never looks at a piece, so "1..2.3", "...", ".1.2.3" and "1.2.3."
  pass as versions, against its own message (format ab.cd.ef.gh). The package
  check beside it refuses a leading or trailing dot.
\<close>

theorem getCommand_update_empty_segment:
  "snd (getCommand \<lparr>argv = [''node'', ''crosswalk-app'', ''update'', ''1..2.3'']\<rparr>)
     = Some ''update'' \<and>
   \<not> four_numeric_segments ''1..2.3'' \<and>
   snd (getCommand \<lparr>argv = [''node'', ''crosswalk-app'', ''update'', ''...'']\<rparr>)
     = Some ''update'' \<and>
   \<not> four_numeric_segments ''...'' \<and>
   snd (getCommand \<lparr>argv = [''node'', ''crosswalk-app'', ''update'', ''.1.2.3'']\<rparr>)
     = Some ''update'' \<and>
   \<not> four_numeric_segments ''.1.2.3'' \<and>
   snd (getCommand \<lparr>argv = [''node'', ''crosswalk-app'', ''update'', ''1.2.3.'']\<rparr>)
     = Some ''update'' \<and>
   \<not> four_numeric_segments ''1.2.3.'' \<and>
   snd (getCommand \<lparr>argv = [''node'', ''crosswalk-app'', ''create'', ''.1.2.3'']\<rparr>) = None"
  by (simp add: getCommand_def peekCommand_def updateGetVersion_def createGetPackage_def
      match_class_star_def version_class_def package_class_def in_range_def charAt_def
      four_numeric_segments_def numeric_segment_def)

text \<open>
  Claim C8: for every argument vector whose command token is "build": when no
  further argument is present the build type resolves to "debug"; when the
  further argument is "debug" or "release" it resolves to that token; for any
  other token the build type is invalid and getCommand returns null.
\<close>

theorem getCommand_build:
  assumes "2 < length (argv this)" and "argv this ! 2 = ''build''"
  shows "buildGetType this =
           (if length (argv this) = 3 then Some ''debug''
            else if argv this ! 3 = ''debug'' \<or> argv this ! 3 = ''release''
              then Some (argv this ! 3)
            else None) \<and>
         snd (getCommand this) =
           (if length (argv this) = 3 \<or> argv this ! 3 = ''debug'' \<or> argv this ! 3 = ''release''
            then Some ''build'' else None)"
proof -
  have peek: "peekCommand this = Some ''build''"
    using assms by (rule peekCommand_build)
  have type: "buildGetType this =
           (if length (argv this) = 3 then Some ''debug''
            else if argv this ! 3 = ''debug'' \<or> argv this ! 3 = ''release''
              then Some (argv this ! 3)
            else None)"
    using assms(1) by (auto simp: buildGetType_def Let_def)
  have "snd (getCommand this) = (if buildGetType this \<noteq> None then Some ''build'' else None)"
    using peek by (simp add: getCommand_def)
  with type show ?thesis by simp
qed

theorem getCommand_build_witness:
  "buildGetType \<lparr>argv = [''node'', ''crosswalk-app'', ''build'']\<rparr> = Some ''debug'' \<and>
   buildGetType \<lparr>argv = [''node'', ''crosswalk-app'', ''build'', ''release'']\<rparr>
     = Some ''release'' \<and>
   buildGetType \<lparr>argv = [''node'', ''crosswalk-app'', ''build'', ''fast'']\<rparr> = None \<and>
   snd (getCommand \<lparr>argv = [''node'', ''crosswalk-app'', ''build'', ''fast'']\<rparr>) = None \<and>
   snd (getCommand \<lparr>argv = [''node'', ''crosswalk-app'', ''build'']\<rparr>) = Some ''build''"
  using
    getCommand_build [of "\<lparr>argv = [''node'', ''crosswalk-app'', ''build'']\<rparr>"]
    getCommand_build [of "\<lparr>argv = [''node'', ''crosswalk-app'', ''build'', ''release'']\<rparr>"]
    getCommand_build [of "\<lparr>argv = [''node'', ''crosswalk-app'', ''build'', ''fast'']\<rparr>"]
  by simp

text \<open>
  Claim C10: for every argument vector whose command token is "refresh",
  peekCommand returns "refresh", yet getCommand returns null: "refresh" never
  resolves to a recognized command at getCommand.
\<close>

theorem getCommand_refresh:
  assumes "2 < length (argv this)" and "argv this ! 2 = ''refresh''"
  shows "peekCommand this = Some ''refresh'' \<and> getCommand this = ([], None)"
proof -
  have peek: "peekCommand this = Some ''refresh''"
    using assms by (rule peekCommand_refresh)
  then show ?thesis by (simp add: getCommand_def)
qed

theorem getCommand_refresh_witness:
  "peekCommand \<lparr>argv = [''node'', ''crosswalk-app'', ''refresh'', ''now'']\<rparr> = Some ''refresh'' \<and>
   getCommand \<lparr>argv = [''node'', ''crosswalk-app'', ''refresh'', ''now'']\<rparr> = ([], None)"
  using getCommand_refresh [of "\<lparr>argv = [''node'', ''crosswalk-app'', ''refresh'', ''now'']\<rparr>"]
  by simp

section \<open>Properties of the dependency module\<close>

subsection \<open>Traces and files\<close>

lemma trace_emit [simp]: "trace (emit e s) = trace s @ [e]"
  by (simp add: emit_def)

lemma files_emit [simp]: "files (emit e s) = files s"
  by (simp add: emit_def)

lemma trace_updates [simp]:
  "trace (fold (\<lambda>p. emit (Indicator_update p)) ps s) = trace s @ map Indicator_update ps"
  by (induction ps arbitrary: s) simp_all

lemma files_updates [simp]:
  "files (fold (\<lambda>p. emit (Indicator_update p)) ps s) = files s"
  by (induction ps arbitrary: s) simp_all

lemma trace_ShellJS_rm [simp]: "trace (ShellJS_rm t s) = trace s @ [ShellJS_rm_call t]"
  by (simp add: ShellJS_rm_def Let_def split: option.splits)

lemma files_ShellJS_rm [simp]:
  "files (ShellJS_rm t s) = (case t of None \<Rightarrow> files s | Some f \<Rightarrow> files s - {f})"
  by (simp add: ShellJS_rm_def Let_def split: option.splits)

lemma dones_append [simp]: "dones (xs @ ys) = dones xs @ dones ys"
  by (induction xs rule: dones.induct) simp_all

lemma dones_updates [simp]: "dones (map Indicator_update ps) = []"
  by (induction ps) simp_all

lemma BASE_URL_base_url: "BASE_URL = base_url @ ''/''"
  by (simp add: BASE_URL_def base_url_def)

subsection \<open>Construction\<close>

text \<open>
  Claim C5: for every channel name not in the fixed set {"beta", "canary",
  "stable"}, constructing a Channel Resolver fails immediately with a
  construction error; for every name in that set, construction succeeds and
  binds that channel.
\<close>

theorem new_AndroidProjectDeps_channels:
  "new_AndroidProjectDeps ch =
     (if ch = ''beta'' \<or> ch = ''canary'' \<or> ch = ''stable'' then Inr \<lparr>channel = ch\<rparr>
      else Inl (InvalidChannelError (''Unknown channel '' @ ch)))"
  by (auto simp: new_AndroidProjectDeps_def CHANNELS_def Let_def)

theorem new_AndroidProjectDeps_channels_witness:
  "new_AndroidProjectDeps ''canary'' = Inr \<lparr>channel = ''canary''\<rparr> \<and>
   new_AndroidProjectDeps ''nightly'' = Inl (InvalidChannelError ''Unknown channel nightly'')"
  using new_AndroidProjectDeps_channels [of "''canary''"]
    new_AndroidProjectDeps_channels [of "''nightly''"]
  by simp

subsection \<open>download\<close>

lemma download_trace:
  assumes "downloader_get w (BASE_URL @ channel this @ ''/'' @ version @ ''/'' @ ''crosswalk-'' @ version @ ''.zip'')
             (path_join w dir (''crosswalk-'' @ version @ ''.zip'')) = (progress, errormsg)"
  shows "download w this version dir s =
     (Inr (),
      s\<lparr>trace := trace s @
         [Console_createFiniteProgress (''Downloading '' @ version @ '' ''),
          New_Downloader (BASE_URL @ channel this @ ''/'' @ version @ ''/'' @ ''crosswalk-'' @ version @ ''.zip'')
            (path_join w dir (''crosswalk-'' @ version @ ''.zip''))] @
         map Indicator_update progress @
         [Indicator_done [],
          if truthy errormsg then Download_callback None errormsg
          else Download_callback (Some (''crosswalk-'' @ version @ ''.zip'')) None]\<rparr>)"
  using assms
  by (simp add: download_def Downloader_get_def download_get_callback_def Let_def emit_def)

text \<open>
  Claim C2, as stated: whenever the terminal callback of the transfer reports an
  error message, download passes a null filename and a non-empty message, and
  \<^verbatim>\<open>indicator.done\<close> is not performed. The last part fails: with the network
  down, download calls \<^verbatim>\<open>indicator.done("")\<close> once.
\<close>

theorem download_calls_done_on_error:
  "truthy (snd (downloader_get offline_world
      ''https://download.01.org/crosswalk/releases/crosswalk/android/stable/14.43.343.25/crosswalk-14.43.343.25.zip''
      ''deps/crosswalk-14.43.343.25.zip'')) \<and>
   dones (trace (snd (download offline_world \<lparr>channel = ''stable''\<rparr> ''14.43.343.25'' ''deps''
     fresh_state))) = [[]]"
  by (simp add: download_def Downloader_get_def download_get_callback_def offline_world_def
      fresh_state_def truthy_def Let_def)

text \<open>
  Claim C2, amended: for every invocation of download(version, dir) in which the
  terminal callback of the transfer reports an error message, download returns
  normally, the message is not empty, and what it does is, in this order: create
  the progress indicator, build the transfer, forward the progress reports, call
  \<^verbatim>\<open>indicator.done("")\<close> once, and pass the caller a null filename together with
  the message.
\<close>

theorem download_reports_error:
  assumes "downloader_get w (BASE_URL @ channel this @ ''/'' @ version @ ''/'' @ ''crosswalk-'' @ version @ ''.zip'')
             (path_join w dir (''crosswalk-'' @ version @ ''.zip'')) = (progress, errormsg)"
    and "truthy errormsg"
  shows "download w this version dir s =
     (Inr (),
      s\<lparr>trace := trace s @
         [Console_createFiniteProgress (''Downloading '' @ version @ '' ''),
          New_Downloader (BASE_URL @ channel this @ ''/'' @ version @ ''/'' @ ''crosswalk-'' @ version @ ''.zip'')
            (path_join w dir (''crosswalk-'' @ version @ ''.zip''))] @
         map Indicator_update progress @
         [Indicator_done [], Download_callback None errormsg]\<rparr>) \<and>
     errormsg \<noteq> None \<and> errormsg \<noteq> Some []"
proof -
  have "errormsg \<noteq> None \<and> errormsg \<noteq> Some []"
    using assms(2) by (cases errormsg) (simp_all add: truthy_def)
  then show ?thesis
    using assms by (simp add: download_trace)
qed

theorem download_reports_error_witness:
  "download offline_world \<lparr>channel = ''stable''\<rparr> ''14.43.343.25'' ''deps'' fresh_state =
     (Inr (),
      \<lparr>files = {},
       trace =
         [Console_createFiniteProgress ''Downloading 14.43.343.25 '',
          New_Downloader
            ''https://download.01.org/crosswalk/releases/crosswalk/android/stable/14.43.343.25/crosswalk-14.43.343.25.zip''
            ''deps/crosswalk-14.43.343.25.zip'',
          Indicator_update 0, Indicator_done [],
          Download_callback None (Some ''getaddrinfo ENOTFOUND download.01.org'')]\<rparr>)"
  using download_reports_error [of offline_world "\<lparr>channel = ''stable''\<rparr>" "''14.43.343.25''" "''deps''"
      "[0]" "Some ''getaddrinfo ENOTFOUND download.01.org''" fresh_state]
  by (simp add: offline_world_def fresh_state_def BASE_URL_def truthy_def)

subsection \<open>fetchVersions\<close>

lemma MkTemp_createFileSync_Some:
  "createFileSync w t = Inr (Some f) \<Longrightarrow>
   MkTemp_createFileSync w t s =
     (Inr (Some f), s\<lparr>files := insert f (files s), trace := trace s @ [MkTemp_call t]\<rparr>)"
  by (simp add: MkTemp_createFileSync_def Let_def emit_def)

lemma fetchVersions_with_indexFile:
  assumes "createFileSync w ''index.html.XXXXXX'' = Inr (Some indexFile)" and "indexFile \<noteq> []"
  shows "fetchVersions w this s =
     Downloader_get w (BASE_URL @ channel this @ ''/'') indexFile
       (fetchVersions_get_callback w indexFile)
       (s\<lparr>files := insert indexFile (files s),
          trace := trace s @
            [MkTemp_call ''index.html.XXXXXX'',
             Console_createFiniteProgress ''Fetching version index '',
             New_Downloader (BASE_URL @ channel this @ ''/'') indexFile]\<rparr>)"
  using assms
  by (simp add: fetchVersions_def MkTemp_createFileSync_Some Let_def emit_def)

lemma fetchVersions_get_callback_failure:
  assumes "truthy errormsg"
  shows "fetchVersions_get_callback w indexFile errormsg s =
     (Inr (),
      s\<lparr>files := files s - {indexFile},
         trace := trace s @
           [Indicator_done [], FetchVersions_callback None errormsg,
            ShellJS_rm_call (Some indexFile)]\<rparr>)"
  using assms
  by (simp add: fetchVersions_get_callback_def ShellJS_rm_def Let_def emit_def)

lemma fetchVersions_get_callback_returns:
  assumes "fetchVersions_get_callback w indexFile errormsg s = (Inr (), s')"
  shows "indexFile \<notin> files s'"
  using assms
  by (auto simp: fetchVersions_get_callback_def Let_def split: if_splits sum.splits)

text \<open>
  On every path on which fetchVersions returns, the temporary file it acquired
  has been removed: after a failed transfer, after a listing read and parsed, and
  when the name of the temporary file is falsy.
\<close>

lemma fetchVersions_returns_removed:
  assumes "createFileSync w ''index.html.XXXXXX'' = Inr (Some indexFile)"
    and "fetchVersions w this s = (Inr (), s')"
  shows "indexFile \<notin> files s'"
proof (cases "indexFile = []")
  case True
  with assms show ?thesis
    by (auto simp: fetchVersions_def MkTemp_createFileSync_Some fetchVersions_no_indexFile_def
        Let_def)
next
  case False
  obtain progress errormsg where
    get: "downloader_get w (BASE_URL @ channel this @ ''/'') indexFile = (progress, errormsg)"
    by (cases "downloader_get w (BASE_URL @ channel this @ ''/'') indexFile")
  from assms False get show ?thesis
    by (auto simp: fetchVersions_with_indexFile Downloader_get_def
        dest: fetchVersions_get_callback_returns)
qed

text \<open>
  Claim C1: for every run of fetchVersions, the temporary listing file acquired
  at the start is removed before the operation completes, on every exit path,
  including failures while reading the downloaded listing. The module does not
  do that: when the transfer succeeds and \<^verbatim>\<open>FS.readFileSync\<close> throws, the
  exception leaves the callback before \<^verbatim>\<open>ShellJS.rm\<close>, and the file stays.
\<close>

theorem fetchVersions_leaves_file_when_read_throws:
  "fetchVersions unreadable_world \<lparr>channel = ''stable''\<rparr> fresh_state =
     (Inl (FS_Error ''EACCES''),
      \<lparr>files = {''index.html.k3x9Qa''},
       trace =
         [MkTemp_call ''index.html.XXXXXX'',
          Console_createFiniteProgress ''Fetching version index '',
          New_Downloader ''https://download.01.org/crosswalk/releases/crosswalk/android/stable/''
            ''index.html.k3x9Qa'',
          Indicator_update 50, Indicator_update 100, Indicator_done [],
          FS_readFileSync_call ''index.html.k3x9Qa'']\<rparr>)"
  by (simp add: fetchVersions_def MkTemp_createFileSync_def Downloader_get_def
      fetchVersions_get_callback_def unreadable_world_def fresh_state_def BASE_URL_def truthy_def
      Let_def emit_def)

text \<open>
  Claim C6: for every run of fetchVersions in which the listing download fails,
  the operation does not raise: it delivers to its caller a null version list
  together with the failure message, through the completion callback.
\<close>

theorem fetchVersions_download_failure:
  assumes "createFileSync w ''index.html.XXXXXX'' = Inr (Some indexFile)" and "indexFile \<noteq> []"
    and "downloader_get w (BASE_URL @ channel this @ ''/'') indexFile = (progress, errormsg)"
    and "truthy errormsg"
  shows "fetchVersions w this s =
     (Inr (),
      s\<lparr>files := files s - {indexFile},
         trace := trace s @
           [MkTemp_call ''index.html.XXXXXX'',
            Console_createFiniteProgress ''Fetching version index '',
            New_Downloader (BASE_URL @ channel this @ ''/'') indexFile] @
           map Indicator_update progress @
           [Indicator_done [], FetchVersions_callback None errormsg,
            ShellJS_rm_call (Some indexFile)]\<rparr>)"
  using assms
  by (simp add: fetchVersions_with_indexFile Downloader_get_def
      fetchVersions_get_callback_failure)

theorem fetchVersions_download_failure_witness:
  "fetchVersions offline_world \<lparr>channel = ''beta''\<rparr> fresh_state =
     (Inr (),
      \<lparr>files = {},
       trace =
         [MkTemp_call ''index.html.XXXXXX'',
          Console_createFiniteProgress ''Fetching version index '',
          New_Downloader ''https://download.01.org/crosswalk/releases/crosswalk/android/beta/''
            ''index.html.k3x9Qa'',
          Indicator_update 0, Indicator_done [],
          FetchVersions_callback None (Some ''getaddrinfo ENOTFOUND download.01.org''),
          ShellJS_rm_call (Some ''index.html.k3x9Qa'')]\<rparr>)"
  using fetchVersions_download_failure [of offline_world "''index.html.k3x9Qa''"
      "\<lparr>channel = ''beta''\<rparr>" "[0]" "Some ''getaddrinfo ENOTFOUND download.01.org''" fresh_state]
  by (simp add: offline_world_def fresh_state_def BASE_URL_def truthy_def)

text \<open>
  When no temporary file could be named, the caller is told so the same way.
\<close>

lemma fetchVersions_no_temporary_file:
  assumes "createFileSync w ''index.html.XXXXXX'' = Inr None"
  shows "fetchVersions w this s =
     (Inr (),
      s\<lparr>trace := trace s @
           [MkTemp_call ''index.html.XXXXXX'',
            FetchVersions_callback None (Some ''Failed to download package index.''),
            ShellJS_rm_call None]\<rparr>)"
  using assms
  by (simp add: fetchVersions_def MkTemp_createFileSync_def fetchVersions_no_indexFile_def
      ShellJS_rm_def Let_def emit_def)

subsection \<open>The transfers requested\<close>

text \<open>
  Claim C9: for every bound channel and every version identifier, fetchVersions
  requests the listing at URL <base-url>/<channel>/, and download(version, dir)
  requests the archive at URL
  <base-url>/<channel>/<version>/<archive-name>-<version>.zip and writes it to
  the file <archive-name>-<version>.zip inside the destination directory. What
  each run does is what the transfer client reports for exactly that URL and that
  destination: fetchVersions, once it has its temporary file, builds the client
  for the listing URL and the temporary file, forwards the progress of that
  transfer, and ends on its outcome; download builds the client for the archive
  URL and \<^verbatim>\<open>Path.join\<close> of the directory and the archive's name, forwards the
  progress of that transfer, and hands its outcome to the caller.
\<close>

theorem transfers_requested:
  "(createFileSync w ''index.html.XXXXXX'' = Inr (Some indexFile) \<and> indexFile \<noteq> [] \<longrightarrow>
      trace (snd (fetchVersions w this s)) =
        trace s @
        [MkTemp_call ''index.html.XXXXXX'',
         Console_createFiniteProgress ''Fetching version index '',
         New_Downloader (listing_url (channel this)) indexFile] @
        map Indicator_update (fst (downloader_get w (listing_url (channel this)) indexFile)) @
        Indicator_done [] #
        (if truthy (snd (downloader_get w (listing_url (channel this)) indexFile))
         then [FetchVersions_callback None
                 (snd (downloader_get w (listing_url (channel this)) indexFile)),
               ShellJS_rm_call (Some indexFile)]
         else FS_readFileSync_call indexFile #
              (case readFileSync w indexFile of
                 Inl e \<Rightarrow> []
               | Inr buffer \<Rightarrow>
                   [FetchVersions_callback (Some (indexParser_parse w buffer)) None,
                    ShellJS_rm_call (Some indexFile)]))) \<and>
   download w this version dir s =
     (Inr (),
      s\<lparr>trace := trace s @
         [Console_createFiniteProgress (''Downloading '' @ version @ '' ''),
          New_Downloader (archive_url (channel this) version)
            (path_join w dir (archive_file version))] @
         map Indicator_update
           (fst (downloader_get w (archive_url (channel this) version)
                  (path_join w dir (archive_file version)))) @
         [Indicator_done [],
          if truthy (snd (downloader_get w (archive_url (channel this) version)
                           (path_join w dir (archive_file version))))
          then Download_callback None
                 (snd (downloader_get w (archive_url (channel this) version)
                        (path_join w dir (archive_file version))))
          else Download_callback (Some (archive_file version)) None]\<rparr>)"
proof (intro conjI impI)
  assume "createFileSync w ''index.html.XXXXXX'' = Inr (Some indexFile) \<and> indexFile \<noteq> []"
  then have tmp: "createFileSync w ''index.html.XXXXXX'' = Inr (Some indexFile)"
    and ne: "indexFile \<noteq> []" by simp_all
  have url: "BASE_URL @ channel this @ ''/'' = listing_url (channel this)"
    by (simp add: listing_url_def BASE_URL_base_url)
  show "trace (snd (fetchVersions w this s)) =
        trace s @
        [MkTemp_call ''index.html.XXXXXX'',
         Console_createFiniteProgress ''Fetching version index '',
         New_Downloader (listing_url (channel this)) indexFile] @
        map Indicator_update (fst (downloader_get w (listing_url (channel this)) indexFile)) @
        Indicator_done [] #
        (if truthy (snd (downloader_get w (listing_url (channel this)) indexFile))
         then [FetchVersions_callback None
                 (snd (downloader_get w (listing_url (channel this)) indexFile)),
               ShellJS_rm_call (Some indexFile)]
         else FS_readFileSync_call indexFile #
              (case readFileSync w indexFile of
                 Inl e \<Rightarrow> []
               | Inr buffer \<Rightarrow>
                   [FetchVersions_callback (Some (indexParser_parse w buffer)) None,
                    ShellJS_rm_call (Some indexFile)]))"
    unfolding fetchVersions_with_indexFile [OF tmp ne] url
    by (simp add: Downloader_get_def split_beta fetchVersions_get_callback_def Let_def
        split: sum.splits)
next
  have url: "BASE_URL @ channel this @ ''/'' @ version @ ''/'' @ ''crosswalk-'' @ version @ ''.zip''
      = archive_url (channel this) version"
    by (simp add: archive_url_def archive_file_def archive_name_def BASE_URL_base_url)
  have name: "''crosswalk-'' @ version @ ''.zip'' = archive_file version"
    by (simp add: archive_file_def archive_name_def)
  show "download w this version dir s =
     (Inr (),
      s\<lparr>trace := trace s @
         [Console_createFiniteProgress (''Downloading '' @ version @ '' ''),
          New_Downloader (archive_url (channel this) version)
            (path_join w dir (archive_file version))] @
         map Indicator_update
           (fst (downloader_get w (archive_url (channel this) version)
                  (path_join w dir (archive_file version)))) @
         [Indicator_done [],
          if truthy (snd (downloader_get w (archive_url (channel this) version)
                           (path_join w dir (archive_file version))))
          then Download_callback None
                 (snd (downloader_get w (archive_url (channel this) version)
                        (path_join w dir (archive_file version))))
          else Download_callback (Some (archive_file version)) None]\<rparr>)"
    unfolding url [symmetric] name [symmetric]
    by (rule download_trace) simp
qed

theorem transfers_requested_witness:
  "trace (snd (fetchVersions online_world \<lparr>channel = ''canary''\<rparr> fresh_state)) =
     [MkTemp_call ''index.html.XXXXXX'',
      Console_createFiniteProgress ''Fetching version index '',
      New_Downloader ''https://download.01.org/crosswalk/releases/crosswalk/android/canary/''
        ''index.html.k3x9Qa'',
      Indicator_update 50, Indicator_update 100, Indicator_done [],
      FS_readFileSync_call ''index.html.k3x9Qa'',
      FetchVersions_callback (Some [''14.43.343.25'']) None,
      ShellJS_rm_call (Some ''index.html.k3x9Qa'')] \<and>
   download online_world \<lparr>channel = ''canary''\<rparr> ''14.43.343.25'' ''deps'' fresh_state =
     (Inr (),
      \<lparr>files = {},
       trace =
         [Console_createFiniteProgress ''Downloading 14.43.343.25 '',
          New_Downloader
            ''https://download.01.org/crosswalk/releases/crosswalk/android/canary/14.43.343.25/crosswalk-14.43.343.25.zip''
            ''deps/crosswalk-14.43.343.25.zip'',
          Indicator_update 50, Indicator_update 100, Indicator_done [],
          Download_callback (Some ''crosswalk-14.43.343.25.zip'') None]\<rparr>)"
  using transfers_requested [of online_world "''index.html.k3x9Qa''" "\<lparr>channel = ''canary''\<rparr>"
      fresh_state "''14.43.343.25''" "''deps''"]
  by (simp add: online_world_def fresh_state_def listing_url_def archive_url_def archive_file_def
      archive_name_def base_url_def truthy_def)

subsection \<open>find\<close>

lemma find_zip_result:
  "fst (find_zip w s) =
     (if shell_ls w current_pattern \<noteq> []
        then ZipFile (shell_ls w current_pattern ! (length (shell_ls w current_pattern) - 1))
      else if shell_ls w parent_pattern \<noteq> []
        then ZipFile (shell_ls w parent_pattern ! (length (shell_ls w parent_pattern) - 1))
      else NotFound)"
  by (simp add: find_zip_def Let_def current_pattern_def parent_pattern_def)

lemma last_sorted_Max:
  fixes xs :: "'a::linorder list"
  assumes "sorted xs" and "xs \<noteq> []"
  shows "xs ! (length xs - 1) = Max (set xs)"
proof -
  have "last xs = Max (set xs)"
    using assms
  proof (induction xs)
    case Nil
    then show ?case by simp
  next
    case (Cons x xs)
    show ?case
    proof (cases "xs = []")
      case True
      then show ?thesis by simp
    next
      case False
      with Cons have "last xs = Max (set xs)" by simp
      moreover have "x \<le> Max (set xs)"
        using Cons.prems(1) False by (simp add: Max_ge_iff) (meson last_in_set)
      ultimately show ?thesis
        using False by (simp add: max_def)
    qed
  qed
  then show ?thesis using assms(2) by (simp add: last_conv_nth)
qed

text \<open>
  When \<^verbatim>\<open>ShellJS.ls\<close> lists in ascending order of the names, the entry returned
  is the greatest of the listing.
\<close>

lemma find_zip_sorted_listing:
  assumes "sorted (shell_ls w current_pattern)" and "sorted (shell_ls w parent_pattern)"
  shows "fst (find_zip w s) =
     (if shell_ls w current_pattern \<noteq> [] then ZipFile (Max (set (shell_ls w current_pattern)))
      else if shell_ls w parent_pattern \<noteq> [] then ZipFile (Max (set (shell_ls w parent_pattern)))
      else NotFound)"
proof -
  let ?zips = "shell_ls w current_pattern" and ?zips' = "shell_ls w parent_pattern"
  have "?zips \<noteq> [] \<Longrightarrow> ?zips ! (length ?zips - 1) = Max (set ?zips)"
    using assms(1) by (rule last_sorted_Max)
  moreover have "?zips' \<noteq> [] \<Longrightarrow> ?zips' ! (length ?zips' - 1) = Max (set ?zips')"
    using assms(2) by (rule last_sorted_Max)
  ultimately show ?thesis
    unfolding find_zip_result by simp
qed

text \<open>
  Claim C4, as stated: for every state of the file system, find() returns the
  lexicographically last filename matching the archive pattern among the
  current-directory candidates when at least one exists. It fails: find takes
  the last entry of the listing and does not sort, so with the current directory
  listed as crosswalk-9.38.208.10.zip, crosswalk-10.39.235.15.zip it returns the
  second, and the first is the greater string.
\<close>

theorem find_zip_unsorted_listing:
  "fst (find_zip unsorted_world fresh_state) = ZipFile ''crosswalk-10.39.235.15.zip'' \<and>
   Max (set (shell_ls unsorted_world current_pattern)) = ''crosswalk-9.38.208.10.zip''"
  by (simp add: find_zip_def unsorted_world_def current_pattern_def Let_def max_def)

text \<open>
  Claim C4, amended: for every state of the file system, find() returns the last
  entry of the listing \<^verbatim>\<open>ShellJS.ls\<close> gives for the archive pattern in the current
  directory when that listing is not empty; otherwise the last entry of the
  listing for the pattern in the parent directory when that one is not empty;
  otherwise a not-found signal, which is a value and not an exception.
\<close>

theorem find_zip_last_listed:
  "fst (find_zip w s) =
     (if shell_ls w current_pattern \<noteq> [] then ZipFile (last (shell_ls w current_pattern))
      else if shell_ls w parent_pattern \<noteq> [] then ZipFile (last (shell_ls w parent_pattern))
      else NotFound)"
  by (simp add: find_zip_def Let_def current_pattern_def parent_pattern_def last_conv_nth)

theorem find_zip_last_listed_witness:
  "fst (find_zip online_world fresh_state) = ZipFile ''crosswalk-9.38.208.10.zip'' \<and>
   fst (find_zip unsorted_world fresh_state) = ZipFile ''crosswalk-10.39.235.15.zip'' \<and>
   fst (find_zip offline_world fresh_state) = NotFound"
  using find_zip_last_listed [of online_world fresh_state]
    find_zip_last_listed [of unsorted_world fresh_state]
    find_zip_last_listed [of offline_world fresh_state]
  by (simp add: online_world_def unsorted_world_def offline_world_def current_pattern_def
      parent_pattern_def)

end
